theory Spec2Isabelle
  imports
    Main
    "HOL-Library.Char_ord"
    "HOL-Library.List_Lexorder"
    "HOL-Library.Multiset"
    "HOL-Library.Product_Lexorder"
    "HOL-Library.Word"
begin

section \<open>Python values used by the todo application\<close>

text \<open>
  Strings are lists of characters. The model reads them as ASCII text: \<open>str.strip\<close>,
  \<open>str.lower\<close> and the digit class of \<open>strptime\<close> are modelled on the ASCII range, and
  characters outside it are left alone. Strings are compared as Python compares them,
  lexicographically by character code (a proper prefix is smaller).
\<close>

datatype py_error =
    ValueError
  | TypeError
  | AttributeError
  | UnicodeDecodeError
  | Ill_typed_field

text \<open>
  \<open>str.isspace\<close> on the ASCII range: the characters 9 to 13 (tab, newline, vertical tab,
  form feed, carriage return), 28 to 31 (the separators) and 32 (space).
\<close>

definition is_space :: "char \<Rightarrow> bool" where
  "is_space c = (let n = (of_char c :: nat) in (9 \<le> n \<and> n \<le> 13) \<or> (28 \<le> n \<and> n \<le> 32))"

definition strip :: "string \<Rightarrow> string" where
  "strip s = rev (dropWhile is_space (rev (dropWhile is_space s)))"

definition lower_char :: "char \<Rightarrow> char" where
  "lower_char c =
     (let n = (of_char c :: nat) in if 65 \<le> n \<and> n \<le> 90 then char_of (n + 32) else c)"

definition lower :: "string \<Rightarrow> string" where
  "lower s = map lower_char s"

text \<open>\<open>k in s\<close> on strings: \<open>k\<close> occurs in \<open>s\<close> as a contiguous block.\<close>

fun starts_with :: "string \<Rightarrow> string \<Rightarrow> bool" where
  "starts_with [] s = True"
| "starts_with (k # ks) [] = False"
| "starts_with (k # ks) (c # cs) = (k = c \<and> starts_with ks cs)"

fun py_in :: "string \<Rightarrow> string \<Rightarrow> bool" where
  "py_in k [] = (k = [])"
| "py_in k (c # cs) = (starts_with k (c # cs) \<or> py_in k cs)"

section \<open>Dates: \<open>datetime.strptime(s, "%Y-%m-%d").date()\<close>\<close>











section \<open>The task entity (\<open>models.py\<close>)\<close>

text \<open>
  The dataclass \<open>Task\<close>, with the types of its annotations: \<open>due_date\<close> is
  \<open>Optional[str]\<close>, the timestamps are the ISO strings \<open>_now()\<close> returns. The field
  \<open>id\<close> is called \<open>task_id\<close> here.
\<close>

record task =
  title :: string
  description :: string
  due_date :: "string option"
  completed :: bool
  task_id :: string
  created_at :: string
  updated_at :: string

text \<open>
  The mutators read the clock once; \<open>now\<close> is what \<open>_now()\<close> returns at that call.
\<close>

definition mark_completed :: "string \<Rightarrow> task \<Rightarrow> task" where
  "mark_completed now t = t\<lparr>completed := True, updated_at := now\<rparr>"

definition mark_active :: "string \<Rightarrow> task \<Rightarrow> task" where
  "mark_active now t = t\<lparr>completed := False, updated_at := now\<rparr>"

definition toggle_completed :: "string \<Rightarrow> task \<Rightarrow> task" where
  "toggle_completed now t = t\<lparr>completed := \<not> completed t, updated_at := now\<rparr>"

text \<open>
  Python's truth value of an \<open>Optional[str]\<close>: \<open>None\<close> and the empty string are false.
\<close>

definition truthy :: "string option \<Rightarrow> bool" where
  "truthy v = (case v of None \<Rightarrow> False | Some s \<Rightarrow> s \<noteq> [])"


text \<open>
  Constructing a task makes three impure calls, in the order of the fields that have a
  default factory: \<open>uuid.uuid4()\<close> for \<open>id\<close>, \<open>_now()\<close> for \<open>created_at\<close> and \<open>_now()\<close>
  again for \<open>updated_at\<close>. \<open>from_dict\<close> makes the same three calls, in the same order,
  while it evaluates the defaults of its \<open>data.get\<close> calls. Their results are inputs of
  the model.
\<close>

type_synonym uuid = "128 word"

record reads =
  uuid4 :: uuid
  now_created :: string
  now_updated :: string

definition hex_digit :: "nat \<Rightarrow> char" where
  "hex_digit n = ''0123456789abcdef'' ! n"

text \<open>\<open>UUID.hex\<close>: the 128 bits as 32 hexadecimal digits, most significant first.\<close>

definition uuid_hex :: "uuid \<Rightarrow> string" where
  "uuid_hex u = map (\<lambda>i. hex_digit (unat (take_bit 4 (drop_bit (4 * (31 - i)) u)))) [0..<32]"


section \<open>Records: \<open>to_dict\<close> and \<open>from_dict\<close>\<close>

text \<open>
  The values \<open>json.loads\<close> returns and \<open>json.dumps\<close> accepts. A float is kept as its
  literal; an object is an association list, read with \<open>map_of\<close>.
\<close>

datatype json =
    JNull
  | JBool bool
  | JInt int
  | JFloat string
  | JStr string
  | JArr "json list"
  | JObj "(string \<times> json) list"

definition to_dict :: "task \<Rightarrow> json" where
  "to_dict t =
     JObj [(''title'', JStr (title t)),
           (''description'', JStr (description t)),
           (''due_date'', (case due_date t of None \<Rightarrow> JNull | Some d \<Rightarrow> JStr d)),
           (''completed'', JBool (completed t)),
           (''id'', JStr (task_id t)),
           (''created_at'', JStr (created_at t)),
           (''updated_at'', JStr (updated_at t))]"

text \<open>
  \<open>data.get(key, default)\<close> for each annotated type. Python stores whatever value the
  key holds; a value of another type than the annotation gives an object that is no
  \<open>task\<close> of this model, which the model reports as \<open>Ill_typed_field\<close> (not a Python
  exception).
\<close>

definition get_str :: "(string \<times> json) list \<Rightarrow> string \<Rightarrow> string \<Rightarrow> py_error + string" where
  "get_str d k dflt =
     (case map_of d k of
        None \<Rightarrow> Inr dflt
      | Some (JStr s) \<Rightarrow> Inr s
      | Some other \<Rightarrow> Inl Ill_typed_field)"

definition get_opt_str :: "(string \<times> json) list \<Rightarrow> string \<Rightarrow> py_error + string option" where
  "get_opt_str d k =
     (case map_of d k of
        None \<Rightarrow> Inr None
      | Some JNull \<Rightarrow> Inr None
      | Some (JStr s) \<Rightarrow> Inr (Some s)
      | Some other \<Rightarrow> Inl Ill_typed_field)"

definition get_bool :: "(string \<times> json) list \<Rightarrow> string \<Rightarrow> bool \<Rightarrow> py_error + bool" where
  "get_bool d k dflt =
     (case map_of d k of
        None \<Rightarrow> Inr dflt
      | Some (JBool b) \<Rightarrow> Inr b
      | Some other \<Rightarrow> Inl Ill_typed_field)"

definition and_then :: "'e + 'a \<Rightarrow> ('a \<Rightarrow> 'e + 'b) \<Rightarrow> 'e + 'b" where
  "and_then r f = (case r of Inl e \<Rightarrow> Inl e | Inr v \<Rightarrow> f v)"

text \<open>
  \<open>Task.from_dict(data)\<close>. Anything but a dict has no \<open>get\<close>: \<open>AttributeError\<close>.
\<close>

definition from_dict :: "reads \<Rightarrow> json \<Rightarrow> py_error + task" where
  "from_dict r data =
     (case data of
        JObj d \<Rightarrow>
          and_then (get_str d ''title'' '''') (\<lambda>ttl.
          and_then (get_str d ''description'' '''') (\<lambda>descr.
          and_then (get_opt_str d ''due_date'') (\<lambda>due.
          and_then (get_bool d ''completed'' False) (\<lambda>done.
          and_then (get_str d ''id'' (uuid_hex (uuid4 r))) (\<lambda>ident.
          and_then (get_str d ''created_at'' (now_created r)) (\<lambda>created.
          and_then (get_str d ''updated_at'' (now_updated r)) (\<lambda>updated.
            Inr \<lparr>title = ttl, description = descr, due_date = due, completed = done,
                 task_id = ident, created_at = created, updated_at = updated\<rparr>)))))))
      | other \<Rightarrow> Inl AttributeError)"

section \<open>The task store (\<open>storage.py\<close>)\<close>

text \<open>
  The backing file, as \<open>load\<close> tells its states apart: no file; a file that cannot be
  read (\<open>OSError\<close>); bytes that are not UTF-8 (\<open>read_text\<close> raises
  \<open>UnicodeDecodeError\<close>, which is neither an \<open>OSError\<close> nor a \<open>JSONDecodeError\<close>); text
  that is empty after \<open>strip\<close>; text \<open>json.loads\<close> rejects with \<open>JSONDecodeError\<close>; text
  \<open>json.loads\<close> decodes, given by the decoded value. \<open>json.dumps\<close> followed by
  \<open>json.loads\<close> gives back the payload of \<open>save\<close>, so a saved file is \<open>Text_json\<close> of the
  payload.
\<close>

datatype backing =
    Missing
  | Unreadable
  | Not_utf8
  | Text_blank
  | Text_malformed
  | Text_json json

text \<open>
  \<open>for item in data\<close>: a list gives its items, a dict its keys, a string its
  characters; the other values are not iterable.
\<close>

fun py_iter :: "json \<Rightarrow> py_error + json list" where
  "py_iter (JArr xs) = Inr xs"
| "py_iter (JObj d) = Inr (map (\<lambda>kv. JStr (fst kv)) d)"
| "py_iter (JStr s) = Inr (map (\<lambda>c. JStr [c]) s)"
| "py_iter other = Inl TypeError"

text \<open>
  \<open>[Task.from_dict(item) for item in data]\<close>; \<open>supply i\<close> holds the impure reads made
  while item \<open>i\<close> is decoded. The first item that raises ends the comprehension.
\<close>

fun from_dict_all :: "(nat \<Rightarrow> reads) \<Rightarrow> nat \<Rightarrow> json list \<Rightarrow> py_error + task list" where
  "from_dict_all supply i [] = Inr []"
| "from_dict_all supply i (x # xs) =
     and_then (from_dict (supply i) x) (\<lambda>t.
     and_then (from_dict_all supply (Suc i) xs) (\<lambda>ts. Inr (t # ts)))"

definition load :: "(nat \<Rightarrow> reads) \<Rightarrow> backing \<Rightarrow> py_error + task list" where
  "load supply file =
     (case file of
        Missing \<Rightarrow> Inr []
      | Unreadable \<Rightarrow> Inr []
      | Not_utf8 \<Rightarrow> Inl UnicodeDecodeError
      | Text_blank \<Rightarrow> Inr []
      | Text_malformed \<Rightarrow> Inr []
      | Text_json data \<Rightarrow> and_then (py_iter data) (from_dict_all supply 0))"



section \<open>The application (\<open>app.py\<close>)\<close>

text \<open>
  \<open>request.args\<close> and \<open>request.form\<close> are maps from names to text;
  \<open>form.get(key, default)\<close> is \<open>get_or\<close>.
\<close>

type_synonym params = "string \<Rightarrow> string option"

definition get_or :: "params \<Rightarrow> string \<Rightarrow> string \<Rightarrow> string" where
  "get_or p k dflt = (case p k of None \<Rightarrow> dflt | Some v \<Rightarrow> v)"

definition find_task :: "task list \<Rightarrow> string \<Rightarrow> task option" where
  "find_task tasks ident = find (\<lambda>t. task_id t = ident) tasks"


definition apply_completion :: "string \<Rightarrow> bool \<Rightarrow> task \<Rightarrow> task" where
  "apply_completion now done t = t\<lparr>completed := done, updated_at := now\<rparr>"







subsection \<open>The list view\<close>

text \<open>
  The key of the sort, \<open>(task.completed, task.due_date or "9999-12-31", task.updated_at)\<close>:
  tuples compare lexicographically, \<open>False\<close> before \<open>True\<close>.
\<close>

definition sort_key_task :: "task \<Rightarrow> bool \<times> string \<times> string" where
  "sort_key_task t =
     (completed t, (if truthy (due_date t) then the (due_date t) else ''9999-12-31''), updated_at t)"

record view =
  view_tasks :: "task list"
  view_search :: string
  view_status :: string
  view_edit_task :: "task option"

text \<open>
  The body of \<open>index\<close> once the three query arguments are read; \<open>sorted\<close> is Python's
  stable sort, \<open>sort_key\<close> the stable sort of the list library.
\<close>

definition index_view :: "task list \<Rightarrow> string \<Rightarrow> string \<Rightarrow> string option \<Rightarrow> view" where
  "index_view tasks search status edit_id =
     (let filtered1 =
            (if search \<noteq> [] then
               filter (\<lambda>t. py_in (lower search) (lower (title t))
                          \<or> py_in (lower search) (lower (description t))) tasks
             else tasks);
          filtered2 =
            (if status = ''active'' then filter (\<lambda>t. \<not> completed t) filtered1
             else if status = ''completed'' then filter (\<lambda>t. completed t) filtered1
             else filtered1)
      in \<lparr>view_tasks = sort_key sort_key_task filtered2,
          view_search = search,
          view_status = status,
          view_edit_task = (if truthy edit_id then find_task tasks (the edit_id) else None)\<rparr>)"

definition index :: "(nat \<Rightarrow> reads) \<Rightarrow> params \<Rightarrow> backing \<Rightarrow> py_error + view" where
  "index supply args file =
     and_then (load supply file) (\<lambda>tasks.
       Inr (index_view tasks (strip (get_or args ''q'' '''')) (get_or args ''status'' ''all'')
              (args ''edit'')))"

subsection \<open>The commands\<close>










section \<open>The wording of the specification\<close>






section \<open>Example data\<close>

definition example_task :: task where
  "example_task =
     \<lparr>title = ''Buy milk'', description = ''two litres'', due_date = Some ''2024-05-31'',
      completed = False, task_id = ''a1'', created_at = ''2024-05-01T10:00:00'',
      updated_at = ''2024-05-01T10:00:00''\<rparr>"

definition rent_task :: task where
  "rent_task =
     \<lparr>title = ''Pay rent'', description = '''', due_date = None,
      completed = True, task_id = ''b2'', created_at = ''2024-04-01T08:00:00'',
      updated_at = ''2024-04-02T08:00:00''\<rparr>"



definition steady_reads :: reads where
  "steady_reads =
     \<lparr>uuid4 = 0xfedcba9876543210fedcba9876543210,
      now_created = ''2024-05-01T10:00:00'', now_updated = ''2024-05-01T10:00:00''\<rparr>"





section \<open>The task entity\<close>




text \<open>
  C9. Setting the completion state sets the flag and stores the clock reading in
  \<open>updated_at\<close>, also when the flag already has the value (then only \<open>updated_at\<close>
  changes); \<open>mark_completed\<close> and \<open>mark_active\<close> do the same. Setting it to true at the
  reading \<open>now1\<close> and then to false at \<open>now2\<close> ends with the flag false and, when the clock
  has moved on (the stored timestamp is before \<open>now1\<close>, and \<open>now2\<close> is not before
  \<open>now1\<close>), with \<open>updated_at\<close> strictly greater than before the two calls.
\<close>

theorem apply_completion_spec:
  assumes "updated_at t < now1" and "now1 \<le> now2"
  shows "completed (apply_completion now v t) = v
     \<and> updated_at (apply_completion now v t) = now
     \<and> apply_completion now (completed t) t = t\<lparr>updated_at := now\<rparr>
     \<and> mark_completed now t = apply_completion now True t
     \<and> mark_active now t = apply_completion now False t
     \<and> completed (apply_completion now2 False (apply_completion now1 True t)) = False
     \<and> updated_at (apply_completion now2 False (apply_completion now1 True t)) = now2
     \<and> updated_at t < updated_at (apply_completion now2 False (apply_completion now1 True t))"
  using assms by (simp add: apply_completion_def mark_completed_def mark_active_def)

theorem apply_completion_spec_witness:
  "updated_at example_task < ''2024-05-02T09:00:00''
   \<and> ''2024-05-02T09:00:00'' \<le> ''2024-05-02T09:00:01''
   \<and> completed (apply_completion ''2024-05-02T09:00:01'' False
        (apply_completion ''2024-05-02T09:00:00'' True example_task)) = False
   \<and> updated_at example_task < updated_at (apply_completion ''2024-05-02T09:00:01'' False
        (apply_completion ''2024-05-02T09:00:00'' True example_task))"
proof -
  have h1: "updated_at example_task < ''2024-05-02T09:00:00''"
    by (simp add: example_task_def)
  have h2: "''2024-05-02T09:00:00'' \<le> ''2024-05-02T09:00:01''"
    by simp
  from apply_completion_spec [OF h1 h2, of "''2024-05-02T09:00:00''" True] h1 h2
  show ?thesis by blast
qed

section \<open>Records\<close>

lemma map_of_filter_keys:
  "map_of (filter (\<lambda>kv. P (fst kv)) d) k = (if P k then map_of d k else None)"
  by (induction d) auto

lemma from_dict_to_dict: "from_dict r (to_dict t) = Inr t"
  by (simp add: from_dict_def to_dict_def and_then_def get_str_def get_opt_str_def get_bool_def
      split: option.splits)

text \<open>
  C6. \<open>from_dict (to_dict t)\<close> gives back \<open>t\<close>, field by field. When only the keys in \<open>K\<close>
  of the record of \<open>t\<close> are present, \<open>from_dict\<close> still returns a task: it has the field
  of \<open>t\<close> for every key present and the default for every key missing, namely the empty
  text for \<open>title\<close> and \<open>description\<close>, no due date, not completed, the id \<open>uuid4\<close> just
  returned, and the clock readings for the two timestamps.
\<close>

theorem from_dict_spec:
  assumes "to_dict t = JObj d"
  shows "from_dict r (to_dict t) = Inr t
    \<and> from_dict r (JObj (filter (\<lambda>kv. fst kv \<in> K) d)) =
        Inr \<lparr>title = (if ''title'' \<in> K then title t else ''''),
             description = (if ''description'' \<in> K then description t else ''''),
             due_date = (if ''due_date'' \<in> K then due_date t else None),
             completed = (if ''completed'' \<in> K then completed t else False),
             task_id = (if ''id'' \<in> K then task_id t else uuid_hex (uuid4 r)),
             created_at = (if ''created_at'' \<in> K then created_at t else now_created r),
             updated_at = (if ''updated_at'' \<in> K then updated_at t else now_updated r)\<rparr>"
proof -
  have d: "d = [(''title'', JStr (title t)),
           (''description'', JStr (description t)),
           (''due_date'', (case due_date t of None \<Rightarrow> JNull | Some d \<Rightarrow> JStr d)),
           (''completed'', JBool (completed t)),
           (''id'', JStr (task_id t)),
           (''created_at'', JStr (created_at t)),
           (''updated_at'', JStr (updated_at t))]"
    using assms by (simp add: to_dict_def)
  have g: "get_str (filter (\<lambda>kv. fst kv \<in> K) d) ''title'' '''' =
        Inr (if ''title'' \<in> K then title t else '''')"
    "get_str (filter (\<lambda>kv. fst kv \<in> K) d) ''description'' '''' =
        Inr (if ''description'' \<in> K then description t else '''')"
    "get_opt_str (filter (\<lambda>kv. fst kv \<in> K) d) ''due_date'' =
        Inr (if ''due_date'' \<in> K then due_date t else None)"
    "get_bool (filter (\<lambda>kv. fst kv \<in> K) d) ''completed'' False =
        Inr (if ''completed'' \<in> K then completed t else False)"
    "get_str (filter (\<lambda>kv. fst kv \<in> K) d) ''id'' dflt =
        Inr (if ''id'' \<in> K then task_id t else dflt)"
    "get_str (filter (\<lambda>kv. fst kv \<in> K) d) ''created_at'' dflt =
        Inr (if ''created_at'' \<in> K then created_at t else dflt)"
    "get_str (filter (\<lambda>kv. fst kv \<in> K) d) ''updated_at'' dflt =
        Inr (if ''updated_at'' \<in> K then updated_at t else dflt)"
    for dflt
    unfolding get_str_def get_opt_str_def get_bool_def map_of_filter_keys
    by (simp_all add: d split: option.splits)
  show ?thesis
    unfolding from_dict_to_dict
    by (simp add: from_dict_def g and_then_def)
qed

theorem from_dict_spec_witness:
  "from_dict steady_reads (to_dict example_task) = Inr example_task
   \<and> from_dict steady_reads (JObj [(''title'', JStr ''Buy milk''), (''completed'', JBool False)]) =
       Inr \<lparr>title = ''Buy milk'', description = '''', due_date = None, completed = False,
            task_id = ''fedcba9876543210fedcba9876543210'',
            created_at = ''2024-05-01T10:00:00'', updated_at = ''2024-05-01T10:00:00''\<rparr>"
proof -
  have u: "uuid_hex (uuid4 steady_reads) = ''fedcba9876543210fedcba9876543210''"
    by code_simp
  have d: "to_dict example_task =
      JObj [(''title'', JStr ''Buy milk''), (''description'', JStr ''two litres''),
            (''due_date'', JStr ''2024-05-31''), (''completed'', JBool False),
            (''id'', JStr ''a1''), (''created_at'', JStr ''2024-05-01T10:00:00''),
            (''updated_at'', JStr ''2024-05-01T10:00:00'')]"
    by (simp add: to_dict_def example_task_def)
  from from_dict_spec [OF d, of steady_reads "{''title'', ''completed''}"] u
  show ?thesis
    by (simp add: example_task_def steady_reads_def)
qed

section \<open>The task store\<close>

lemma load_tolerates:
  "load supply Missing = Inr []" "load supply Unreadable = Inr []"
  "load supply Text_blank = Inr []" "load supply Text_malformed = Inr []"
  "load supply (Text_json (JArr [])) = Inr []"
  by (simp_all add: load_def and_then_def)

text \<open>
  C3 fails on the code: \<open>load\<close> raises on a file whose text is well-formed JSON but not
  an array of objects. The text \<open>5\<close> decodes to a number, which cannot be iterated
  (\<open>TypeError\<close>); the text \<open>{"tasks": []}\<close> decodes to a dict, whose keys are strings
  without \<open>get\<close> (\<open>AttributeError\<close>), as are the items of \<open>[1]\<close>; bytes that are not
  UTF-8 raise \<open>UnicodeDecodeError\<close>. None of them is caught by
  \<open>except (OSError, json.JSONDecodeError)\<close>.
\<close>

theorem load_raises_on_wrong_shape:
  "load supply (Text_json (JInt 5)) = Inl TypeError
   \<and> load supply (Text_json JNull) = Inl TypeError
   \<and> load supply (Text_json (JObj [(''tasks'', JArr [])])) = Inl AttributeError
   \<and> load supply (Text_json (JArr [JInt 1])) = Inl AttributeError
   \<and> load supply Not_utf8 = Inl UnicodeDecodeError"
  by (simp add: load_def and_then_def from_dict_def)

section \<open>The list view\<close>






lemma index_returns_view:
  assumes "load supply file = Inr tasks"
  shows "index supply args file =
     Inr (index_view tasks (strip (get_or args ''q'' '''')) (get_or args ''status'' ''all'')
            (args ''edit''))"
  using assms by (simp add: index_def and_then_def)

lemma empty_due_date_counts_as_absent:
  "sort_key_task (t\<lparr>due_date := Some []\<rparr>) = sort_key_task (t\<lparr>due_date := None\<rparr>)"
  by (simp add: sort_key_task_def truthy_def)





lemma find_task_Some:
  "find_task tasks e = Some t \<Longrightarrow> t \<in> set tasks \<and> task_id t = e"
  unfolding find_task_def by (induction tasks) (auto split: if_splits)

lemma find_task_None: "find_task tasks e = None \<longleftrightarrow> e \<notin> task_id ` set tasks"
  unfolding find_task_def by (induction tasks) auto

text \<open>
  C8. The edit target is looked up by id in the list the view was given, before any
  filter: it is the first task of that list with the id, whatever the search text and
  the status are, so it does not depend on them and need not be among the tasks the
  view shows; it is absent only when no task has the id. With no \<open>edit\<close> argument (or an
  empty one) there is no edit target.
\<close>

theorem edit_target_spec:
  "(edit_id = None \<or> edit_id = Some [] \<longrightarrow>
      view_edit_task (index_view tasks search status edit_id) = None)
   \<and> (\<forall>e. edit_id = Some e \<and> e \<noteq> [] \<longrightarrow>
         view_edit_task (index_view tasks search status edit_id)
           = find (\<lambda>t. task_id t = e) tasks
         \<and> (e \<in> task_id ` set tasks \<longrightarrow>
              (\<exists>t \<in> set tasks. task_id t = e
                 \<and> view_edit_task (index_view tasks search status edit_id) = Some t)))
   \<and> view_edit_task (index_view tasks search status edit_id)
       = view_edit_task (index_view tasks search' status' edit_id)"
proof -
  have "\<exists>t \<in> set tasks. task_id t = e \<and> find_task tasks e = Some t"
    if "e \<in> task_id ` set tasks" for e
  proof -
    from that have "find_task tasks e \<noteq> None" by (simp add: find_task_None)
    then obtain t where "find_task tasks e = Some t" by blast
    with find_task_Some [of tasks e t] show ?thesis by blast
  qed
  then show ?thesis
    by (auto simp: index_view_def Let_def truthy_def find_task_def)
qed

theorem edit_target_spec_witness:
  "view_edit_task (index_view [example_task, rent_task] ''milk'' ''active'' (Some ''b2''))
     = Some rent_task
   \<and> view_tasks (index_view [example_task, rent_task] ''milk'' ''active'' (Some ''b2''))
     = [example_task]
   \<and> view_edit_task (index_view [example_task, rent_task] ''milk'' ''active'' None) = None
   \<and> find (\<lambda>t. task_id t = ''b2'') [example_task, rent_task] = Some rent_task"
proof -
  have e: "view_edit_task (index_view [example_task, rent_task] ''milk'' ''active'' (Some ''b2''))
     = Some rent_task"
    "view_tasks (index_view [example_task, rent_task] ''milk'' ''active'' (Some ''b2''))
     = [example_task]"
    "view_edit_task (index_view [example_task, rent_task] ''milk'' ''active'' None) = None"
    by code_simp+
  from edit_target_spec [of "Some ''b2''" "[example_task, rent_task]" "''milk''" "''active''"] e(1)
  have "find (\<lambda>t. task_id t = ''b2'') [example_task, rent_task] = Some rent_task"
    by simp
  with e show ?thesis by simp
qed

section \<open>The commands\<close>



















section \<open>Create, save and load\<close>





section \<open>Saving is not atomic\<close>




end
